theory Spec2Isabelle
  imports Complex_Main "HOL-Library.Log_Nat"
begin

section \<open>Float64 values\<close>

text \<open>
  The program is one class, \<open>USB2000\<close>, whose methods are Qt slots: a 30 ms timer calls
  \<open>update\<close>, and the toolbar's buttons and line edits call the other methods. The
  embedding keeps the instance attributes as the fields of a record and every method as a
  function on the record.

  Intensities and wavelengths are float64 values. A finite float64 is kept as the
  rational it denotes (\<open>Num 0\<close> is \<open>+0.0\<close>), next to the negative zero, the two
  infinities and NaN. An arithmetic operation computes the exact result and rounds it to
  the nearest float64, ties to the even mantissa: 53 bits of mantissa, the smallest
  quantum \<open>2^-1074\<close>, overflow to an infinity from \<open>2^1024\<close> on.
\<close>

datatype f64 = Num rat | NegZero | PosInf | NegInf | NaN

definition pow2 :: "int \<Rightarrow> rat" where
  "pow2 k = (if 0 \<le> k then 2 ^ nat k else 1 / 2 ^ nat (- k))"

text \<open>
  \<open>binade a\<close> is the exponent of the power of two at or below a positive \<open>a\<close>:
  \<open>2 ^ binade a \<le> a < 2 ^ (binade a + 1)\<close>.
\<close>

definition binade :: "rat \<Rightarrow> int" where
  "binade a = (if 1 \<le> a then bitlen \<lfloor>a\<rfloor> - 1 else - bitlen (\<lceil>1 / a\<rceil> - 1))"

definition round_half_even :: "rat \<Rightarrow> int" where
  "round_half_even x =
     (let f = \<lfloor>x\<rfloor>; r = x - of_int f
      in if r < 1 / 2 then f else if 1 / 2 < r then f + 1 else if even f then f else f + 1)"

definition round64 :: "rat \<Rightarrow> f64" where
  "round64 x =
     (if x = 0 then Num 0
      else
        (let a = \<bar>x\<bar>;
             e = binade a;
             q = pow2 (max e (- 1022) - 52);
             n = round_half_even (a / q)
         in if 1024 \<le> e \<or> (e = 1023 \<and> 2 ^ 53 \<le> n) then (if x < 0 then NegInf else PosInf)
            else if n = 0 then (if x < 0 then NegZero else Num 0)
            else Num (if x < 0 then - (of_int n * q) else of_int n * q)))"

text \<open>
  Addition: NaN wins, opposite infinities give NaN, an infinity wins over a finite
  value, two negative zeros give the negative zero, and an exact sum of zero is \<open>+0.0\<close>.
\<close>

fun f64_add :: "f64 \<Rightarrow> f64 \<Rightarrow> f64" where
  "f64_add NaN y = NaN"
| "f64_add x NaN = NaN"
| "f64_add PosInf NegInf = NaN"
| "f64_add NegInf PosInf = NaN"
| "f64_add PosInf y = PosInf"
| "f64_add x PosInf = PosInf"
| "f64_add NegInf y = NegInf"
| "f64_add x NegInf = NegInf"
| "f64_add NegZero y = y"
| "f64_add x NegZero = x"
| "f64_add (Num a) (Num b) = (if a + b = 0 then Num 0 else round64 (a + b))"

text \<open>
  Division by a count \<open>k \<ge> 1\<close> (below \<open>2^53\<close>, so a float64 itself), as \<open>np.mean\<close>
  divides the sum by the number of scans.
\<close>

definition f64_div_count :: "f64 \<Rightarrow> nat \<Rightarrow> f64" where
  "f64_div_count x k =
     (case x of
        Num a \<Rightarrow> if a = 0 then Num 0 else round64 (a / of_nat k)
      | NegZero \<Rightarrow> NegZero
      | PosInf \<Rightarrow> PosInf
      | NegInf \<Rightarrow> NegInf
      | NaN \<Rightarrow> NaN)"

section \<open>The text of a float64\<close>

text \<open>
  \<open>str\<close> of a float64 (the same text for a Python float and a NumPy float64 scalar):
  the shortest decimal digits that read back as the same float64, the closest to the
  value among the shortest; positional notation when the decimal point position is
  between -3 and 16, scientific notation with at least two exponent digits otherwise;
  an integral value gets \<open>.0\<close>.
\<close>

definition pow10 :: "int \<Rightarrow> rat" where
  "pow10 k = (if 0 \<le> k then 10 ^ nat k else 1 / 10 ^ nat (- k))"

text \<open>The character of the last decimal digit of \<open>d\<close>, and the decimal digits of \<open>n\<close>.\<close>

definition digit_char :: "int \<Rightarrow> char" where
  "digit_char d = char_of (48 + d mod 10)"

function dec_digits :: "int \<Rightarrow> string" where
  "dec_digits n =
     (if n < 10 then [digit_char n] else dec_digits (n div 10) @ [digit_char (n mod 10)])"
  by pat_completeness auto
termination
  by (relation "measure nat") auto

declare dec_digits.simps [simp del]

text \<open>
  The position of the decimal point of a positive \<open>a\<close>:
  \<open>10 ^ (decpt a - 1) \<le> a < 10 ^ decpt a\<close>.
\<close>

definition decpt :: "rat \<Rightarrow> int" where
  "decpt a =
     (if 1 \<le> a then int (length (dec_digits \<lfloor>a\<rfloor>))
      else 1 - int (length (dec_digits (\<lceil>1 / a\<rceil> - 1))))"

text \<open>
  \<open>shortest fuel n a k\<close> looks for a decimal of \<open>n\<close> digits that rounds to \<open>a\<close>, among
  the two \<open>n\<close>-digit decimals around \<open>a\<close>, and goes on with one digit more when neither
  does; 17 digits always do. The result is the digits as an integer and the power of
  ten of the last digit.
\<close>

fun shortest :: "nat \<Rightarrow> nat \<Rightarrow> rat \<Rightarrow> int \<Rightarrow> int \<times> int" where
  "shortest 0 n a k = (round_half_even (a / pow10 (k - int n)), k - int n)"
| "shortest (Suc fuel) n a k =
     (let sc = pow10 (k - int n);
          lo = \<lfloor>a / sc\<rfloor>;
          hi = \<lceil>a / sc\<rceil>;
          lo_ok = (round64 (of_int lo * sc) = Num a);
          hi_ok = (round64 (of_int hi * sc) = Num a)
      in if lo_ok \<and> (if hi_ok then a - of_int lo * sc \<le> of_int hi * sc - a else True)
         then (lo, k - int n)
         else if hi_ok then (hi, k - int n)
         else shortest fuel (Suc n) a k)"

text \<open>
  The digits without their trailing zeros, the exponent of the scientific notation, and
  the text of a positive value.
\<close>

definition strip_zeros :: "string \<Rightarrow> string" where
  "strip_zeros ds = rev (dropWhile (\<lambda>c. c = CHR ''0'') (rev ds))"

definition exp_digits :: "int \<Rightarrow> string" where
  "exp_digits e = (if e < 10 then CHR ''0'' # dec_digits e else dec_digits e)"

definition positive_str :: "rat \<Rightarrow> string" where
  "positive_str a =
     (let (d, e) = shortest 16 1 a (decpt a);
          full = dec_digits d;
          ds = strip_zeros full;
          pt = int (length full) + e
      in if - 4 < pt \<and> pt \<le> 16 then
           (if pt \<le> 0 then ''0.'' @ replicate (nat (- pt)) (CHR ''0'') @ ds
            else if nat pt < length ds then take (nat pt) ds @ ''.'' @ drop (nat pt) ds
            else ds @ replicate (nat pt - length ds) (CHR ''0'') @ ''.0'')
         else
           take 1 ds @ (if 1 < length ds then ''.'' @ drop 1 ds else []) @ ''e'' @
           (if pt - 1 < 0 then ''-'' else ''+'') @ exp_digits \<bar>pt - 1\<bar>)"

definition float_str :: "f64 \<Rightarrow> string" where
  "float_str x =
     (case x of
        Num a \<Rightarrow>
          if a = 0 then ''0.0''
          else if a < 0 then ''-'' @ positive_str (- a)
          else positive_str a
      | NegZero \<Rightarrow> ''-0.0''
      | PosInf \<Rightarrow> ''inf''
      | NegInf \<Rightarrow> ''-inf''
      | NaN \<Rightarrow> ''nan'')"

section \<open>Data model of \<open>usb2000.py\<close>\<close>

datatype py_error =
  ValueError | IndexError | TypeError | AttributeError | SeaBreezeError | OSError

text \<open>
  The spectrometer driver object (\<open>seabreeze.spectrometers.Spectrometer\<close>), seen through
  the four members the program uses: \<open>model\<close>, \<open>wavelengths()\<close>,
  \<open>integration_time_micros(t)\<close> and \<open>intensities()\<close>. What the hardware answers is
  not decided by the program, so it is data of the device: \<open>accepts\<close> says which
  integration times the driver takes without raising, and \<open>reads k\<close> is the outcome of
  the \<open>k\<close>-th call of \<open>intensities()\<close> (\<open>None\<close>: the call raised). \<open>calls\<close> counts
  the calls of \<open>intensities()\<close> made so far. Reading \<open>model\<close> and \<open>wavelengths()\<close> is
  taken not to raise.
\<close>

record device =
  model :: string
  dev_wavelengths :: "f64 list"
  accepts :: "int \<Rightarrow> bool"
  dev_integration_time :: int
  reads :: "nat \<Rightarrow> f64 list option"
  calls :: nat

text \<open>
  The attributes of \<open>USB2000\<close> set in \<open>__init__\<close> (lines 42 to 50), and the widget
  state the methods write: the status label's text, the enabled flags of the three
  buttons, the plot widget's x range and the curve's data. \<open>intensities\<close> is an option
  because \<open>export_data\<close> compares it with Python's \<open>None\<close>.
\<close>

record usb2000 =
  integration_time_us :: int
  spec :: "device option"
  initialized :: bool
  wavelengths :: "f64 list"
  intensities :: "f64 list list option"
  averaged_intensities :: "f64 list"
  scans_to_average :: int
  capturing :: bool
  status_label :: string
  connect_button :: bool
  start_capture_button :: bool
  stop_capture_button :: bool
  x_range :: "f64 \<times> f64"
  plot :: "f64 list \<times> f64 list"

text \<open>
  \<open>__init__\<close>: the attribute defaults, then \<open>build_toolbar\<close> (status text, both
  capture buttons disabled, the connect button enabled as every new button is) and
  \<open>build_plot\<close> (x range 330 to 1025, the curve created from \<open>np.zeros(1)\<close>).
\<close>

definition usb2000_init :: usb2000 where
  "usb2000_init =
     \<lparr> integration_time_us = 20000,
       spec = None,
       initialized = False,
       wavelengths = [],
       intensities = Some [],
       averaged_intensities = [],
       scans_to_average = 4,
       capturing = False,
       status_label = ''STATUS: No device connected'',
       connect_button = True,
       start_capture_button = False,
       stop_capture_button = False,
       x_range = (Num 330, Num 1025),
       plot = ([Num 0], [Num 0]) \<rparr>"

text \<open>
  What a slot leaves behind: \<open>Inr t\<close> when it returns with the object as \<open>t\<close>, and
  \<open>Inl (e, t)\<close> when the exception \<open>e\<close> leaves it with the object as \<open>t\<close> (the
  assignments made before the raise stay).
\<close>

type_synonym outcome = "(py_error \<times> usb2000) + usb2000"

section \<open>The driver's calls\<close>

text \<open>\<open>spec.integration_time_micros(t)\<close>: sets the time, or raises and sets nothing.\<close>

definition integration_time_micros :: "int \<Rightarrow> device \<Rightarrow> py_error + device" where
  "integration_time_micros t d =
     (if accepts d t then Inr (d\<lparr>dev_integration_time := t\<rparr>) else Inl SeaBreezeError)"

text \<open>\<open>spec.intensities()\<close>: one acquisition; the call is counted whether it raises or not.\<close>

definition dev_intensities :: "device \<Rightarrow> f64 list option \<times> device" where
  "dev_intensities d = (reads d (calls d), d\<lparr>calls := Suc (calls d)\<rparr>)"

section \<open>Python's \<open>int()\<close> on the text of a line edit\<close>

text \<open>
  \<open>int(s)\<close> for a \<open>str\<close>, base 10, on ASCII text: surrounding whitespace is dropped, one
  sign is allowed, then decimal digits with single underscores between digits. Anything
  else raises \<open>ValueError\<close>, which is \<open>None\<close> here. The result is an unbounded
  integer, as Python's is.
\<close>

definition py_isspace :: "char \<Rightarrow> bool" where
  "py_isspace c = (c \<in> set [CHR '' '', CHR 0x09, CHR 0x0A, CHR 0x0B, CHR 0x0C, CHR 0x0D])"

definition py_strip :: "string \<Rightarrow> string" where
  "py_strip s = rev (dropWhile py_isspace (rev (dropWhile py_isspace s)))"

definition digit_of :: "char \<Rightarrow> nat option" where
  "digit_of c =
     (let n = (of_char c :: nat) in if 48 \<le> n \<and> n \<le> 57 then Some (n - 48) else None)"

fun digits_val :: "nat \<Rightarrow> string \<Rightarrow> nat option" where
  "digits_val acc [] = Some acc"
| "digits_val acc (c # cs) =
     (if c = CHR ''_'' then
        (case cs of
           [] \<Rightarrow> None
         | c' # _ \<Rightarrow> (case digit_of c' of None \<Rightarrow> None | Some _ \<Rightarrow> digits_val acc cs))
      else
        (case digit_of c of None \<Rightarrow> None | Some v \<Rightarrow> digits_val (10 * acc + v) cs))"

definition py_digits :: "string \<Rightarrow> nat option" where
  "py_digits cs =
     (case cs of
        [] \<Rightarrow> None
      | c # r \<Rightarrow> (case digit_of c of None \<Rightarrow> None | Some v \<Rightarrow> digits_val v r))"

definition py_int :: "string \<Rightarrow> int option" where
  "py_int s =
     (case py_strip s of
        [] \<Rightarrow> None
      | c # r \<Rightarrow>
          if c = CHR ''-'' then map_option (\<lambda>n. - int n) (py_digits r)
          else if c = CHR ''+'' then map_option int (py_digits r)
          else map_option int (py_digits (c # r)))"

section \<open>The methods\<close>

subsection \<open>\<open>init_spectrometer\<close> (lines 68 to 86)\<close>

text \<open>
  \<open>avail\<close> is what \<open>Spectrometer.from_first_available()\<close> finds (\<open>None\<close>: it raises).
  The \<open>try\<close> block can also leave at \<open>integration_time_micros\<close> and at
  \<open>self.wavelengths[0]\<close> (an empty calibration); the assignments made before the raise
  stay, and the handler sets the status text.
\<close>

definition init_spectrometer :: "device option \<Rightarrow> usb2000 \<Rightarrow> usb2000" where
  "init_spectrometer avail s =
     (case avail of
        None \<Rightarrow> s\<lparr>status_label := ''No device detected''\<rparr>
      | Some d \<Rightarrow>
          (let s1 = s\<lparr>spec := Some d\<rparr> in
           case integration_time_micros (integration_time_us s1) d of
             Inl e \<Rightarrow> s1\<lparr>status_label := ''No device detected''\<rparr>
           | Inr d' \<Rightarrow>
               (let s2 = s1\<lparr>spec := Some d', wavelengths := dev_wavelengths d'\<rparr> in
                if wavelengths s2 = [] then s2\<lparr>status_label := ''No device detected''\<rparr>
                else s2\<lparr>x_range := (hd (wavelengths s2), last (wavelengths s2)),
                        initialized := True,
                        status_label := ''Device initialized: '' @ model d',
                        connect_button := False,
                        start_capture_button := True\<rparr>)))"

subsection \<open>\<open>read_spectrum\<close> (lines 88 to 102)\<close>

text \<open>
  One pass of the body of the \<open>for\<close> loop: the \<open>try\<close> calls \<open>self.spec.intensities()\<close>
  and appends the scan; every exception (no driver object, a failed read, no list to
  append to) is caught and printed, and the loop goes on.
\<close>

definition acquire_once :: "usb2000 \<Rightarrow> usb2000" where
  "acquire_once s =
     (case spec s of
        None \<Rightarrow> s
      | Some d \<Rightarrow>
          (let (r, d') = dev_intensities d; s1 = s\<lparr>spec := Some d'\<rparr> in
           case r of
             None \<Rightarrow> s1
           | Some sc \<Rightarrow>
               (case intensities s1 of
                  None \<Rightarrow> s1
                | Some acc \<Rightarrow> s1\<lparr>intensities := Some (acc @ [sc])\<rparr>)))"

text \<open>\<open>for i in range(n)\<close>: the body, \<open>n\<close> times.\<close>

fun acquire_loop :: "nat \<Rightarrow> usb2000 \<Rightarrow> usb2000" where
  "acquire_loop 0 s = s"
| "acquire_loop (Suc n) s = acquire_loop n (acquire_once s)"

text \<open>
  \<open>np.mean(scans, axis=0)\<close> on a non-empty list of scans, given as its first scan and
  the rest: the scans are added index by index in the order of the list, every addition
  rounded to float64, and the sums are divided by the number of scans and rounded.
  Scans of different lengths do not form an array and the call raises.
\<close>

definition np_mean_axis0 :: "f64 list \<Rightarrow> f64 list list \<Rightarrow> py_error + f64 list" where
  "np_mean_axis0 sc rest =
     (if list_all (\<lambda>r. length r = length sc) rest
      then Inr (map (\<lambda>x. f64_div_count x (Suc (length rest))) (foldl (map2 f64_add) sc rest))
      else Inl ValueError)"

text \<open>Lines 99 to 102: average when the list is not empty, then empty the list.\<close>

definition average_batch :: "usb2000 \<Rightarrow> outcome" where
  "average_batch s =
     (case intensities s of
        None \<Rightarrow> Inl (TypeError, s)
      | Some [] \<Rightarrow> Inr s
      | Some (sc # rest) \<Rightarrow>
          (case np_mean_axis0 sc rest of
             Inl e \<Rightarrow> Inl (e, s)
           | Inr m \<Rightarrow> Inr (s\<lparr>averaged_intensities := m, intensities := Some []\<rparr>)))"

text \<open>\<open>range(n)\<close> is empty for \<open>n \<le> 0\<close>, which is \<open>nat n = 0\<close>.\<close>

definition read_spectrum :: "usb2000 \<Rightarrow> outcome" where
  "read_spectrum s =
     (let s0 = s\<lparr>intensities := Some []\<rparr>
      in average_batch (acquire_loop (nat (scans_to_average s0)) s0))"

subsection \<open>\<open>update\<close>, the timer's slot (lines 62 to 66)\<close>

definition update :: "usb2000 \<Rightarrow> outcome" where
  "update s =
     (if capturing s then
        (if initialized s then
           (case read_spectrum s of
              Inl r \<Rightarrow> Inl r
            | Inr s' \<Rightarrow> Inr (s'\<lparr>plot := (wavelengths s', averaged_intensities s')\<rparr>))
         else Inr s)
      else Inr s)"

subsection \<open>The line edits' slots (lines 111 to 122)\<close>

text \<open>
  \<open>update_integration_time\<close>: the attribute is assigned first, the driver is called
  second, both inside one \<open>try\<close>. A text that \<open>int()\<close> refuses changes nothing; a driver
  that is absent or that raises leaves the attribute already assigned.
\<close>

definition update_integration_time :: "string \<Rightarrow> usb2000 \<Rightarrow> usb2000" where
  "update_integration_time txt s =
     (case py_int txt of
        None \<Rightarrow> s
      | Some v \<Rightarrow>
          (let s1 = s\<lparr>integration_time_us := v\<rparr> in
           case spec s1 of
             None \<Rightarrow> s1
           | Some d \<Rightarrow>
               (case integration_time_micros (integration_time_us s1) d of
                  Inl e \<Rightarrow> s1
                | Inr d' \<Rightarrow> s1\<lparr>spec := Some d'\<rparr>)))"

definition update_scans_to_average :: "string \<Rightarrow> usb2000 \<Rightarrow> usb2000" where
  "update_scans_to_average txt s =
     (case py_int txt of
        None \<Rightarrow> s
      | Some v \<Rightarrow> s\<lparr>scans_to_average := v\<rparr>)"

subsection \<open>\<open>start_capture\<close> and \<open>stop_capture\<close> (lines 124 to 135)\<close>

definition start_capture :: "usb2000 \<Rightarrow> usb2000" where
  "start_capture s =
     s\<lparr>capturing := True, start_capture_button := False, stop_capture_button := True\<rparr>"

definition stop_capture :: "usb2000 \<Rightarrow> usb2000" where
  "stop_capture s =
     s\<lparr>capturing := False, start_capture_button := True, stop_capture_button := False\<rparr>"

subsection \<open>\<open>export_data\<close> (lines 139 to 162)\<close>

text \<open>
  \<open>csv.writer(f).writerow(fields)\<close> with the default dialect: fields joined by commas,
  a field holding a comma, a double quote, CR or LF is put in double quotes with its
  quotes doubled, and the row ends with CR LF. The file is opened with \<open>newline=""\<close>, so
  the text reaches the file as written.
\<close>

definition csv_special :: "char \<Rightarrow> bool" where
  "csv_special c = (c \<in> set [CHR '','', CHR 0x22, CHR 0x0D, CHR 0x0A])"

definition csv_field :: "string \<Rightarrow> string" where
  "csv_field f =
     (if list_ex csv_special f
      then [CHR 0x22] @ concat (map (\<lambda>c. if c = CHR 0x22 then [c, c] else [c]) f) @ [CHR 0x22]
      else f)"

fun csv_join :: "string list \<Rightarrow> string" where
  "csv_join [] = []"
| "csv_join [f] = f"
| "csv_join (f # g # fs) = f @ '','' @ csv_join (g # fs)"

definition csv_writerow :: "string list \<Rightarrow> string" where
  "csv_writerow fs = csv_join (map csv_field fs) @ [CHR 0x0D, CHR 0x0A]"

text \<open>
  The loop of lines 159 and 160 over the indices of \<open>wavelengths\<close>: the writer makes
  the text of the two floats with \<open>str\<close>; \<open>averaged_intensities[i]\<close> raises
  \<open>IndexError\<close> when the averaged spectrum is shorter, and the rows written before stay
  in the file.
\<close>

fun write_rows :: "f64 list \<Rightarrow> f64 list \<Rightarrow> nat list \<Rightarrow> string \<Rightarrow> string \<times> py_error option" where
  "write_rows ws av [] out = (out, None)"
| "write_rows ws av (i # js) out =
     (if i < length av
      then write_rows ws av js (out @ csv_writerow [float_str (ws ! i), float_str (av ! i)])
      else (out, Some IndexError))"

text \<open>
  The outcome of one call: the object afterwards, the file written (its name and its
  content) if one was opened, and the exception that left the method, if any.
\<close>

record export_outcome =
  after :: usb2000
  written :: "(string \<times> string) option"
  raised :: "py_error option"

text \<open>
  \<open>filename\<close> is the first component of what the save dialog returns (empty:
  cancelled). \<open>opened\<close> says whether \<open>open(filename, "w")\<close> succeeds; when it does not,
  \<open>OSError\<close> leaves the method, which has no handler, and nothing is written. Once the
  file is open the writes are taken to succeed.
\<close>

definition export_data :: "string \<Rightarrow> bool \<Rightarrow> usb2000 \<Rightarrow> export_outcome" where
  "export_data filename opened s =
     (if intensities s = None then
        \<lparr>after = s\<lparr>status_label := ''ERROR: No data to export''\<rparr>,
         written = None, raised = None\<rparr>
      else if filename = [] then
        \<lparr>after = s\<lparr>status_label := ''ERROR: No file selected''\<rparr>,
         written = None, raised = None\<rparr>
      else if opened then
        (let (content, err) =
               write_rows (wavelengths s) (averaged_intensities s)
                 [0..<length (wavelengths s)] (csv_writerow [''Wavelength'', ''Intensity''])
         in case err of
              Some e \<Rightarrow> \<lparr>after = s, written = Some (filename, content), raised = Some e\<rparr>
            | None \<Rightarrow>
                \<lparr>after = s\<lparr>status_label := ''INFO: Data exported to '' @ filename\<rparr>,
                 written = Some (filename, content), raised = None\<rparr>)
      else \<lparr>after = s, written = None, raised = Some OSError\<rparr>)"

section \<open>The operator's actions and the timer\<close>

text \<open>
  The wiring of \<open>__init__\<close> and \<open>build_toolbar\<close>: the timer's \<open>timeout\<close> is connected
  to \<open>update\<close>, each button's \<open>clicked\<close> to its method, each line edit's
  \<open>editingFinished\<close> to its method; these connections are the only callers of the
  methods. A disabled button emits no \<open>clicked\<close>. An event carries what the
  surroundings answer: the device found by a connect, the committed text, the file name
  chosen and whether the file could be opened.
\<close>

datatype event =
    Tick
  | ClickConnect "device option"
  | CommitIntegrationTime string
  | CommitScansToAverage string
  | ClickStartCapture
  | ClickStopCapture
  | ClickExport string bool

fun fire :: "event \<Rightarrow> usb2000 \<Rightarrow> outcome" where
  "fire Tick s = update s"
| "fire (ClickConnect avail) s =
     Inr (if connect_button s then init_spectrometer avail s else s)"
| "fire (CommitIntegrationTime txt) s = Inr (update_integration_time txt s)"
| "fire (CommitScansToAverage txt) s = Inr (update_scans_to_average txt s)"
| "fire ClickStartCapture s =
     Inr (if start_capture_button s then start_capture s else s)"
| "fire ClickStopCapture s =
     Inr (if stop_capture_button s then stop_capture s else s)"
| "fire (ClickExport filename opened) s =
     (let r = export_data filename opened s
      in case raised r of None \<Rightarrow> Inr (after r) | Some e \<Rightarrow> Inl (e, after r))"

text \<open>
  An exception that leaves a slot is reported by the exception hook and the event loop
  goes on: the next event finds the object as the slot left it.
\<close>

definition left_by :: "outcome \<Rightarrow> usb2000" where
  "left_by r = (case r of Inl (e, t) \<Rightarrow> t | Inr t \<Rightarrow> t)"

fun run :: "event list \<Rightarrow> usb2000 \<Rightarrow> usb2000" where
  "run [] s = s"
| "run (e # es) s = run es (left_by (fire e s))"

section \<open>Vocabulary of the properties\<close>

text \<open>The number of acquisitions the driver has been asked for so far.\<close>

definition calls_of :: "usb2000 \<Rightarrow> nat" where
  "calls_of s = (case spec s of None \<Rightarrow> 0 | Some d \<Rightarrow> calls d)"

text \<open>The scans that the next \<open>n\<close> acquisitions of a device return, failures left out.\<close>

definition successes :: "device \<Rightarrow> nat \<Rightarrow> f64 list list" where
  "successes d n = List.map_filter (reads d) [calls d..<calls d + n]"

text \<open>
  The scans that the batch started in state \<open>s\<close> will receive: without a driver object
  every attempt raises.
\<close>

definition batch_successes :: "usb2000 \<Rightarrow> f64 list list" where
  "batch_successes s =
     (case spec s of None \<Rightarrow> [] | Some d \<Rightarrow> successes d (nat (scans_to_average s)))"

definition batch_attempts :: "usb2000 \<Rightarrow> usb2000 \<Rightarrow> nat" where
  "batch_attempts s s' = calls_of s' - calls_of s"

text \<open>
  The float64 mean of a list of values, as \<open>np.mean\<close> computes it: the values added
  from the first to the last, every addition rounded, and the sum divided by their
  number and rounded.
\<close>

definition f64_mean :: "f64 list \<Rightarrow> f64" where
  "f64_mean xs =
     (case xs of [] \<Rightarrow> NaN | x # r \<Rightarrow> f64_div_count (foldl f64_add x r) (length xs))"

text \<open>The values that the scans hold at index \<open>i\<close>.\<close>

definition column :: "f64 list list \<Rightarrow> nat \<Rightarrow> f64 list" where
  "column scans i = map (\<lambda>r. r ! i) scans"




text \<open>
  A bench device for the examples: three pixels, the integration times the USB2000
  takes, and a fixed list of outcomes for its acquisitions (none after the list's end),
  each scan given by its counts. \<open>bench_session\<close> is the session right after a
  successful connect to it.
\<close>

definition script :: "rat list option list \<Rightarrow> nat \<Rightarrow> f64 list option" where
  "script outs k = (if k < length outs then map_option (map Num) (outs ! k) else None)"

definition bench_device :: "rat list option list \<Rightarrow> device" where
  "bench_device outs =
     \<lparr> model = ''USB2000'', dev_wavelengths = [Num 330, Num 331, Num 332],
       accepts = (\<lambda>t. 3000 \<le> t \<and> t \<le> 655350000), dev_integration_time = 100000,
       reads = script outs, calls = 0 \<rparr>"

definition bench_session :: "rat list option list \<Rightarrow> usb2000" where
  "bench_session outs = init_spectrometer (Some (bench_device outs)) usb2000_init"

text \<open>
  The batch of \<open>read_spectrum\<close> with \<open>stop_capture\<close> run in its middle: \<open>k\<close> passes
  of the loop, then \<open>stop_capture\<close>, then the remaining passes and the averaging.
\<close>

definition stopped_loop :: "nat \<Rightarrow> usb2000 \<Rightarrow> usb2000" where
  "stopped_loop k s0 =
     acquire_loop (nat (scans_to_average s0) - k) (stop_capture (acquire_loop k s0))"

definition read_spectrum_stopped_after :: "nat \<Rightarrow> usb2000 \<Rightarrow> outcome" where
  "read_spectrum_stopped_after k s = average_batch (stopped_loop k (s\<lparr>intensities := Some []\<rparr>))"

text \<open>
  The three states of the capture state machine, read off the two flags of the object:
  not initialized is idle, initialized is connected, and capturing on top of it is
  capturing.
\<close>

datatype capture_state = Idle | Connected | Capturing

definition capture_state_of :: "usb2000 \<Rightarrow> capture_state" where
  "capture_state_of s =
     (if \<not> initialized s then Idle else if capturing s then Capturing else Connected)"

text \<open>
  The flags and settings that only the operator's actions write, and the relation that
  the buttons' enabled flags keep with \<open>initialized\<close> and \<open>capturing\<close>.
\<close>

definition controls :: "usb2000 \<Rightarrow> (bool \<times> bool \<times> bool \<times> bool \<times> bool) \<times> int \<times> int" where
  "controls s =
     ((initialized s, capturing s, connect_button s, start_capture_button s,
       stop_capture_button s),
      scans_to_average s, integration_time_us s)"

definition controls_ok :: "usb2000 \<Rightarrow> bool" where
  "controls_ok s \<longleftrightarrow>
     connect_button s = (\<not> initialized s) \<and>
     start_capture_button s = (initialized s \<and> \<not> capturing s) \<and>
     stop_capture_button s = capturing s \<and>
     \<not> (capturing s \<and> \<not> initialized s) \<and>
     intensities s \<noteq> None"



text \<open>
  The settings the operator can commit, and the commits that keep them positive: a text
  that \<open>int()\<close> refuses (nothing is stored) or that denotes a positive integer.
\<close>

definition positive_settings :: "usb2000 \<Rightarrow> bool" where
  "positive_settings s \<longleftrightarrow> 0 < scans_to_average s \<and> 0 < integration_time_us s"

fun positive_commit :: "event \<Rightarrow> bool" where
  "positive_commit (CommitIntegrationTime txt) =
     (case py_int txt of None \<Rightarrow> True | Some v \<Rightarrow> 0 < v)"
| "positive_commit (CommitScansToAverage txt) =
     (case py_int txt of None \<Rightarrow> True | Some v \<Rightarrow> 0 < v)"
| "positive_commit e = True"

section \<open>Lemmas on the acquisition loop and the mean\<close>

lemma acquire_once_Some:
  "spec s = Some d \<Longrightarrow> intensities s = Some acc \<Longrightarrow>
   acquire_once s =
     s\<lparr>spec := Some (d\<lparr>calls := Suc (calls d)\<rparr>),
       intensities := Some (acc @ (case reads d (calls d) of None \<Rightarrow> [] | Some sc \<Rightarrow> [sc]))\<rparr>"
  by (simp add: acquire_once_def dev_intensities_def split: option.splits)

lemma acquire_loop_Some:
  "spec s = Some d \<Longrightarrow> intensities s = Some acc \<Longrightarrow>
   acquire_loop n s =
     s\<lparr>spec := Some (d\<lparr>calls := calls d + n\<rparr>),
       intensities := Some (acc @ successes d n)\<rparr>"
proof (induction n arbitrary: s d acc)
  case 0
  then show ?case by (simp add: successes_def)
next
  case (Suc n)
  let ?d = "d\<lparr>calls := Suc (calls d)\<rparr>"
  let ?acc = "acc @ (case reads d (calls d) of None \<Rightarrow> [] | Some sc \<Rightarrow> [sc])"
  have step: "acquire_once s = s\<lparr>spec := Some ?d, intensities := Some ?acc\<rparr>"
    using Suc.prems by (rule acquire_once_Some)
  have "[calls d..<calls d + Suc n] = calls d # [Suc (calls d)..<Suc (calls d) + n]"
    by (simp add: upt_rec)
  then have succ: "successes d (Suc n) =
      (case reads d (calls d) of None \<Rightarrow> [] | Some sc \<Rightarrow> [sc]) @ successes ?d n"
    by (simp add: successes_def split: option.splits)
  show ?case
    by (simp add: step succ Suc.IH [of _ ?d ?acc])
qed

lemma acquire_loop_None:
  "spec s = None \<Longrightarrow> acquire_loop n s = s"
  by (induction n arbitrary: s) (simp_all add: acquire_once_def)


lemma successes_none:
  "(\<And>k. k < n \<Longrightarrow> reads d (calls d + k) = None) \<Longrightarrow> successes d n = []"
proof (induction n)
  case 0
  then show ?case by (simp add: successes_def)
next
  case (Suc n)
  have "successes d (Suc n) = successes d n"
    using Suc.prems [of n] by (simp add: successes_def List.map_filter_def)
  then show ?case using Suc by simp
qed

lemma foldl_map2_f64_add:
  "list_all (\<lambda>r. length r = length sc) rest \<Longrightarrow>
   length (foldl (map2 f64_add) sc rest) = length sc \<and>
   (\<forall>i<length sc. foldl (map2 f64_add) sc rest ! i =
      foldl f64_add (sc ! i) (map (\<lambda>r. r ! i) rest))"
proof (induction rest arbitrary: sc)
  case Nil
  then show ?case by simp
next
  case (Cons r rest)
  let ?sc = "map2 f64_add sc r"
  have len: "length ?sc = length sc" using Cons.prems by simp
  have "list_all (\<lambda>r. length r = length ?sc) rest" using Cons.prems len by simp
  from Cons.IH [OF this] len Cons.prems show ?case by simp
qed

lemma np_mean_axis0_nth:
  assumes "list_all (\<lambda>r. length r = length sc) rest"
  shows "\<exists>m. np_mean_axis0 sc rest = Inr m \<and> length m = length sc \<and>
     (\<forall>i<length sc. m ! i = f64_mean (column (sc # rest) i))"
  using assms foldl_map2_f64_add [OF assms]
  by (simp add: np_mean_axis0_def f64_mean_def column_def)

lemma read_spectrum_Some:
  "spec s = Some d \<Longrightarrow>
   read_spectrum s =
     average_batch (s\<lparr>spec := Some (d\<lparr>calls := calls d + nat (scans_to_average s)\<rparr>),
                      intensities := Some (successes d (nat (scans_to_average s)))\<rparr>)"
  by (simp add: read_spectrum_def acquire_loop_Some [where acc = "[]"])

lemma read_spectrum_None:
  "spec s = None \<Longrightarrow> read_spectrum s = Inr (s\<lparr>intensities := Some []\<rparr>)"
  by (simp add: read_spectrum_def acquire_loop_None average_batch_def)

lemma list_eq_map_upt:
  "length xs = n \<Longrightarrow> \<forall>i<n. xs ! i = f i \<Longrightarrow> xs = map f [0..<n]"
  by (auto intro: nth_equalityI)

lemma read_spectrum_mean:
  assumes "spec s = Some d"
    and "successes d (nat (scans_to_average s)) = sc # rest"
    and "list_all (\<lambda>r. length r = length sc) rest"
  shows "\<exists>m. read_spectrum s =
        Inr (s\<lparr>spec := Some (d\<lparr>calls := calls d + nat (scans_to_average s)\<rparr>),
               intensities := Some [],
               averaged_intensities := m\<rparr>) \<and>
      length m = length sc \<and>
      (\<forall>i<length sc. m ! i = f64_mean (column (sc # rest) i))"
proof -
  obtain m where m: "np_mean_axis0 sc rest = Inr m" "length m = length sc"
    "\<forall>i<length sc. m ! i = f64_mean (column (sc # rest) i)"
    using np_mean_axis0_nth [OF assms(3)] by blast
  show ?thesis
    using m assms(1,2)
    by (intro exI [of _ m]) (simp add: read_spectrum_Some average_batch_def)
qed

lemma read_spectrum_no_success:
  "batch_successes s = [] \<Longrightarrow>
   read_spectrum s =
     Inr (s\<lparr>spec := map_option (\<lambda>d. d\<lparr>calls := calls d + nat (scans_to_average s)\<rparr>) (spec s),
            intensities := Some []\<rparr>)"
  by (cases "spec s")
     (simp_all add: batch_successes_def read_spectrum_None read_spectrum_Some average_batch_def)



section \<open>Facts of the bench session\<close>

lemma bench_session_fields:
  "spec (bench_session outs) = Some ((bench_device outs)\<lparr>dev_integration_time := 20000\<rparr>)"
  "scans_to_average (bench_session outs) = 4"
  "initialized (bench_session outs)"
  "\<not> capturing (bench_session outs)"
  "averaged_intensities (bench_session outs) = []"
  "wavelengths (bench_session outs) = [Num 330, Num 331, Num 332]"
  "intensities (bench_session outs) = Some []"
  by (simp_all add: bench_session_def init_spectrometer_def integration_time_micros_def
      bench_device_def usb2000_init_def)

lemma bench_device_fields:
  "calls ((bench_device outs)\<lparr>dev_integration_time := t\<rparr>) = 0"
  "reads ((bench_device outs)\<lparr>dev_integration_time := t\<rparr>) = script outs"
  by (simp_all add: bench_device_def)

lemma bench_session_buttons:
  "connect_button usb2000_init" "start_capture_button (bench_session outs)"
  "\<not> connect_button (bench_session outs)" "\<not> stop_capture_button (bench_session outs)"
  by (simp_all add: bench_session_def init_spectrometer_def integration_time_micros_def
      bench_device_def usb2000_init_def)

lemma upt_4: "[0..<4] = [0, 1, 2, 3::nat]"
  by (simp add: upt_rec)

lemma upt_3: "[0..<3] = [0, 1, 2::nat]"
  by (simp add: upt_rec)


lemma f64_mean_1357: "f64_mean [Num 1, Num 3, Num 5, Num 7] = Num 4"
  by code_simp

lemma f64_mean_2468: "f64_mean [Num 2, Num 4, Num 6, Num 8] = Num 5"
  by code_simp

lemma f64_mean_3579: "f64_mean [Num 3, Num 5, Num 7, Num 9] = Num 6"
  by code_simp








section \<open>The batch: \<open>read_spectrum\<close>\<close>




text \<open>
  Claim C2. When none of the acquisitions of a batch succeeds (no driver object, or every
  call of \<open>intensities()\<close> raises), \<open>read_spectrum\<close> returns normally, no exception
  leaves it, and the averaged spectrum is the one from before the batch.
\<close>

theorem read_spectrum_none_succeed:
  assumes "batch_successes s = []"
  shows "\<exists>s'. read_spectrum s = Inr s' \<and>
      averaged_intensities s' = averaged_intensities s \<and>
      wavelengths s' = wavelengths s"
  using read_spectrum_no_success [OF assms] by simp

theorem read_spectrum_none_succeed_witness:
  "batch_successes ((bench_session [None, None, None, None])\<lparr>averaged_intensities := [Num 1, Num 2, Num 3]\<rparr>) = [] \<and>
   (\<exists>s'. read_spectrum ((bench_session [None, None, None, None])\<lparr>averaged_intensities := [Num 1, Num 2, Num 3]\<rparr>) = Inr s' \<and>
      averaged_intensities s' = [Num 1, Num 2, Num 3])"
proof -
  let ?s = "(bench_session [None, None, None, None])\<lparr>averaged_intensities := [Num 1, Num 2, Num 3]\<rparr>"
  have h: "batch_successes ?s = []"
    by (simp add: batch_successes_def successes_def bench_session_fields bench_device_fields
        upt_4 script_def)
  show ?thesis using h read_spectrum_none_succeed [OF h] by auto
qed



section \<open>The tick: \<open>update\<close>\<close>

text \<open>
  Claim C10. A tick acquires only when both \<open>capturing\<close> and \<open>initialized\<close> are set:
  in every other state, in particular when \<open>capturing\<close> is set and the device was never
  initialized, \<open>update\<close> leaves the whole state as it is (wavelengths, averaged
  intensities, flags and the driver's call count included).
\<close>

theorem update_needs_both_flags:
  assumes "\<not> (capturing s \<and> initialized s)"
  shows "update s = Inr s"
  using assms by (auto simp: update_def)

theorem update_needs_both_flags_witness:
  "capturing (start_capture usb2000_init) \<and> \<not> initialized (start_capture usb2000_init) \<and>
   update (start_capture usb2000_init) = Inr (start_capture usb2000_init)"
proof -
  have h: "\<not> (capturing (start_capture usb2000_init) \<and> initialized (start_capture usb2000_init))"
    by (simp add: start_capture_def usb2000_init_def)
  show ?thesis using update_needs_both_flags [OF h]
    by (simp add: start_capture_def usb2000_init_def)
qed

section \<open>Stopping in the middle of a batch\<close>

lemma acquire_once_stop_capture:
  "acquire_once (stop_capture s) = stop_capture (acquire_once s)"
  by (simp add: acquire_once_def stop_capture_def dev_intensities_def Let_def
      split: option.splits)

lemma acquire_loop_stop_capture:
  "acquire_loop n (stop_capture s) = stop_capture (acquire_loop n s)"
  by (induction n arbitrary: s) (simp_all add: acquire_once_stop_capture)

lemma acquire_loop_add:
  "acquire_loop m (acquire_loop k s) = acquire_loop (k + m) s"
  by (induction k arbitrary: s) simp_all

lemma average_batch_stop_capture:
  "average_batch (stop_capture s) =
     map_sum (map_prod id stop_capture) stop_capture (average_batch s)"
  by (simp add: average_batch_def stop_capture_def split: option.splits list.splits sum.splits)

lemma stopped_loop_eq:
  "k \<le> nat (scans_to_average s0) \<Longrightarrow>
   stopped_loop k s0 = stop_capture (acquire_loop (nat (scans_to_average s0)) s0)"
  by (simp add: stopped_loop_def acquire_loop_stop_capture acquire_loop_add)

lemma calls_of_stop_capture: "calls_of (stop_capture s) = calls_of s"
  by (simp add: calls_of_def stop_capture_def)

lemma calls_of_acquire_loop:
  "spec s = Some d \<Longrightarrow> intensities s = Some acc \<Longrightarrow>
   calls_of (acquire_loop n s) = calls d + n"
  by (simp add: calls_of_def acquire_loop_Some)

text \<open>
  Claim C5. \<open>stop_capture\<close> run after any \<open>k\<close> of the \<open>depth\<close> passes of a batch does
  not shorten the batch: the batch makes exactly \<open>depth\<close> acquisition attempts and ends
  as the uninterrupted batch followed by \<open>stop_capture\<close> does; after it \<open>capturing\<close> is
  off and the next tick starts no batch.
\<close>

theorem stop_capture_mid_batch:
  assumes "spec s = Some d" and "k \<le> nat (scans_to_average s)"
  shows "batch_attempts s (stopped_loop k (s\<lparr>intensities := Some []\<rparr>)) = nat (scans_to_average s) \<and>
     read_spectrum_stopped_after k s =
       map_sum (map_prod id stop_capture) stop_capture (read_spectrum s) \<and>
     (\<forall>s'. read_spectrum_stopped_after k s = Inr s' \<longrightarrow> \<not> capturing s' \<and> update s' = Inr s')"
proof -
  let ?s0 = "s\<lparr>intensities := Some []\<rparr>"
  have k: "k \<le> nat (scans_to_average ?s0)" using assms(2) by simp
  have loop: "stopped_loop k ?s0 = stop_capture (acquire_loop (nat (scans_to_average s)) ?s0)"
    using stopped_loop_eq [OF k] by simp
  have "calls_of (stopped_loop k ?s0) = calls d + nat (scans_to_average s)"
    using assms(1)
    by (simp add: loop calls_of_stop_capture calls_of_acquire_loop [where acc = "[]"])
  then have attempts: "batch_attempts s (stopped_loop k ?s0) = nat (scans_to_average s)"
    using assms(1) by (simp add: batch_attempts_def calls_of_def)
  have same: "read_spectrum_stopped_after k s =
      map_sum (map_prod id stop_capture) stop_capture (read_spectrum s)"
    by (simp add: read_spectrum_stopped_after_def loop average_batch_stop_capture read_spectrum_def)
  have idle: "\<not> capturing s' \<and> update s' = Inr s'"
    if "read_spectrum_stopped_after k s = Inr s'" for s'
  proof -
    have "\<exists>t. s' = stop_capture t"
      using that same by (cases "read_spectrum s") auto
    then obtain t where "s' = stop_capture t" ..
    then show ?thesis by (simp add: stop_capture_def update_def)
  qed
  show ?thesis using attempts same idle by blast
qed

theorem stop_capture_mid_batch_witness:
  "spec (start_capture (bench_session [Some [1, 2, 3], Some [3, 4, 5], Some [5, 6, 7], Some [7, 8, 9]])) \<noteq> None \<and>
   (2::nat) \<le> nat (scans_to_average (start_capture (bench_session [Some [1, 2, 3], Some [3, 4, 5], Some [5, 6, 7], Some [7, 8, 9]]))) \<and>
   batch_attempts (start_capture (bench_session [Some [1, 2, 3], Some [3, 4, 5], Some [5, 6, 7], Some [7, 8, 9]]))
     (stopped_loop 2 ((start_capture (bench_session [Some [1, 2, 3], Some [3, 4, 5], Some [5, 6, 7], Some [7, 8, 9]]))\<lparr>intensities := Some []\<rparr>)) = 4 \<and>
   (\<exists>s'. read_spectrum_stopped_after 2 (start_capture (bench_session [Some [1, 2, 3], Some [3, 4, 5], Some [5, 6, 7], Some [7, 8, 9]])) = Inr s' \<and>
      averaged_intensities s' = [Num 4, Num 5, Num 6] \<and> \<not> capturing s' \<and> update s' = Inr s')"
proof -
  let ?outs = "[Some [1, 2, 3], Some [3, 4, 5], Some [5, 6, 7], Some [7, 8, 9 :: rat]]"
  let ?s = "start_capture (bench_session ?outs)"
  let ?d = "(bench_device ?outs)\<lparr>dev_integration_time := 20000\<rparr>"
  let ?sc = "[Num 1, Num 2, Num 3]"
  let ?rest = "[[Num 3, Num 4, Num 5], [Num 5, Num 6, Num 7], [Num 7, Num 8, Num 9]]"
  have h1: "spec ?s = Some ?d" by (simp add: start_capture_def bench_session_fields)
  have depth: "scans_to_average ?s = 4" by (simp add: start_capture_def bench_session_fields)
  have h2: "2 \<le> nat (scans_to_average ?s)" by (simp add: depth)
  note inst = stop_capture_mid_batch [OF h1 h2]
  have succ: "successes ?d (nat (scans_to_average ?s)) = ?sc # ?rest"
    by (simp add: depth successes_def bench_device_fields upt_4 script_def)
  have same: "list_all (\<lambda>r. length r = length ?sc) ?rest" by simp
  obtain m where m: "read_spectrum ?s =
        Inr (?s\<lparr>spec := Some (?d\<lparr>calls := calls ?d + nat (scans_to_average ?s)\<rparr>),
               intensities := Some [], averaged_intensities := m\<rparr>)"
      "length m = length ?sc"
      "\<forall>i<length ?sc. m ! i = f64_mean (column (?sc # ?rest) i)"
    using read_spectrum_mean [OF h1 succ same] by blast
  have "m = map (\<lambda>i. f64_mean (column (?sc # ?rest) i)) [0..<3]"
    using m(2,3) by (intro list_eq_map_upt) simp_all
  then have "m = [Num 4, Num 5, Num 6]"
    by (simp add: upt_3 column_def f64_mean_1357 f64_mean_2468 f64_mean_3579)
  then show ?thesis using inst m(1) h1 depth by (auto simp: stop_capture_def)
qed

section \<open>The integration time\<close>

lemma py_int_50000: "py_int ''50000'' = Some 50000"
  by (simp add: py_int_def py_strip_def py_isspace_def py_digits_def digit_of_def)

lemma py_int_examples:
  "py_int ''0'' = Some 0" "py_int ''-5'' = Some (- 5)" "py_int ''1'' = Some 1"
  "py_int ''abc'' = None" "py_int [] = None" "py_int '' 1_000 '' = Some 1000"
  "py_int ''1__0'' = None" "py_int ''+7'' = Some 7" "py_int ''12a'' = None"
  by (simp_all add: py_int_def py_strip_def py_isspace_def py_digits_def digit_of_def)

lemma py_int_8: "py_int ''8'' = Some 8" and py_int_abc: "py_int ''abc'' = None"
  by (simp_all add: py_int_def py_strip_def py_isspace_def py_digits_def digit_of_def)

text \<open>
  Claim C6, as amended. With a driver connected, committing \<open>"50000"\<close> to a device that
  accepts it sets the device's integration time and the stored \<open>integration_time_us\<close> to
  50000. When the device rejects the committed value, the device keeps the integration
  time it had, and the stored \<open>integration_time_us\<close> holds the committed value: the
  attribute is assigned before the driver is called.
\<close>

theorem update_integration_time_device:
  assumes "spec s = Some d"
  shows "(accepts d 50000 \<longrightarrow>
        integration_time_us (update_integration_time ''50000'' s) = 50000 \<and>
        spec (update_integration_time ''50000'' s) = Some (d\<lparr>dev_integration_time := 50000\<rparr>)) \<and>
     (\<forall>txt v. py_int txt = Some v \<and> \<not> accepts d v \<longrightarrow>
        spec (update_integration_time txt s) = Some d \<and>
        integration_time_us (update_integration_time txt s) = v)"
  using assms
  by (simp add: update_integration_time_def integration_time_micros_def py_int_50000)

theorem update_integration_time_device_witness:
  "spec (bench_session []) = Some ((bench_device [])\<lparr>dev_integration_time := 20000\<rparr>) \<and>
   accepts ((bench_device [])\<lparr>dev_integration_time := 20000\<rparr>) 50000 \<and>
   integration_time_us (update_integration_time ''50000'' (bench_session [])) = 50000 \<and>
   spec (update_integration_time ''50000'' (bench_session [])) =
     Some ((bench_device [])\<lparr>dev_integration_time := 50000\<rparr>) \<and>
   py_int ''2000'' = Some 2000 \<and>
   \<not> accepts ((bench_device [])\<lparr>dev_integration_time := 20000\<rparr>) 2000 \<and>
   spec (update_integration_time ''2000'' (bench_session [])) =
     Some ((bench_device [])\<lparr>dev_integration_time := 20000\<rparr>) \<and>
   integration_time_us (update_integration_time ''2000'' (bench_session [])) = 2000"
proof -
  let ?d = "(bench_device [])\<lparr>dev_integration_time := 20000\<rparr>"
  have h: "spec (bench_session []) = Some ?d" by (simp add: bench_session_fields)
  have a: "accepts ?d 50000" "\<not> accepts ?d 2000" by (simp_all add: bench_device_def)
  have p: "py_int ''2000'' = Some 2000"
    by (simp add: py_int_def py_strip_def py_isspace_def py_digits_def digit_of_def)
  note inst = update_integration_time_device [OF h]
  from inst a(1) have part1:
    "integration_time_us (update_integration_time ''50000'' (bench_session [])) = 50000 \<and>
     spec (update_integration_time ''50000'' (bench_session [])) =
       Some (?d\<lparr>dev_integration_time := 50000\<rparr>)"
    by blast
  from inst p a(2) have part2:
    "spec (update_integration_time ''2000'' (bench_session [])) = Some ?d \<and>
     integration_time_us (update_integration_time ''2000'' (bench_session [])) = 2000"
    by blast
  show ?thesis using h a p part1 part2 by simp
qed

text \<open>
  The claim as stated fails: on the bench session (stored value 20000) the device
  rejects 2000, keeps 20000, and the stored value becomes 2000.
\<close>

theorem update_integration_time_stored_on_rejection:
  "integration_time_us (bench_session []) = 20000 \<and>
   \<not> accepts (bench_device []) 2000 \<and>
   integration_time_us (update_integration_time ''2000'' (bench_session [])) = 2000 \<and>
   map_option dev_integration_time (spec (update_integration_time ''2000'' (bench_session []))) =
     Some 20000"
  by (simp add: update_integration_time_def integration_time_micros_def bench_session_def
      init_spectrometer_def bench_device_def usb2000_init_def
      py_int_def py_strip_def py_isspace_def py_digits_def digit_of_def)

section \<open>The buttons and the capture state machine\<close>

lemma controls_acquire_once:
  "controls (acquire_once s) = controls s \<and>
   (intensities s \<noteq> None \<longrightarrow> intensities (acquire_once s) \<noteq> None)"
  by (simp add: acquire_once_def controls_def dev_intensities_def Let_def split: option.splits)

lemma controls_acquire_loop:
  "controls (acquire_loop n s) = controls s \<and>
   (intensities s \<noteq> None \<longrightarrow> intensities (acquire_loop n s) \<noteq> None)"
proof (induction n arbitrary: s)
  case 0
  then show ?case by simp
next
  case (Suc n)
  show ?case using Suc.IH [of "acquire_once s"] controls_acquire_once [of s] by simp
qed

lemma controls_average_batch:
  "controls (left_by (average_batch s)) = controls s \<and>
   (intensities s \<noteq> None \<longrightarrow> intensities (left_by (average_batch s)) \<noteq> None)"
  by (simp add: average_batch_def controls_def left_by_def
      split: option.splits list.splits sum.splits)

lemma controls_read_spectrum:
  "controls (left_by (read_spectrum s)) = controls s \<and>
   intensities (left_by (read_spectrum s)) \<noteq> None"
proof -
  let ?s0 = "s\<lparr>intensities := Some []\<rparr>"
  let ?s1 = "acquire_loop (nat (scans_to_average ?s0)) ?s0"
  have r: "read_spectrum s = average_batch ?s1" by (simp add: read_spectrum_def)
  have "controls ?s1 = controls ?s0" and "intensities ?s1 \<noteq> None"
    using controls_acquire_loop [of "nat (scans_to_average ?s0)" ?s0] by simp_all
  moreover have "controls ?s0 = controls s" by (simp add: controls_def)
  ultimately show ?thesis using controls_average_batch [of ?s1] by (simp add: r)
qed

lemma left_by_update:
  "controls (left_by (update s)) = controls s \<and>
   (intensities s \<noteq> None \<longrightarrow> intensities (left_by (update s)) \<noteq> None)"
proof (cases "capturing s \<and> initialized s")
  case True
  show ?thesis
  proof (cases "read_spectrum s")
    case (Inl r)
    then have "left_by (update s) = left_by (read_spectrum s)"
      using True by (simp add: update_def)
    then show ?thesis using controls_read_spectrum [of s] by simp
  next
    case (Inr t)
    then have u: "left_by (update s) = t\<lparr>plot := (wavelengths t, averaged_intensities t)\<rparr>"
      and t: "left_by (read_spectrum s) = t"
      using True by (simp_all add: update_def left_by_def)
    show ?thesis using controls_read_spectrum [of s] by (simp add: u t controls_def)
  qed
next
  case False
  then have "left_by (update s) = s" by (auto simp: update_def left_by_def)
  then show ?thesis by simp
qed

lemma left_by_export:
  "controls (left_by (fire (ClickExport filename opened) s)) = controls s \<and>
   intensities (left_by (fire (ClickExport filename opened) s)) = intensities s"
  by (simp add: export_data_def controls_def left_by_def Let_def
      split: prod.splits option.splits)

lemma controls_ok_cong:
  "controls s' = controls s \<Longrightarrow> intensities s' \<noteq> None \<Longrightarrow> controls_ok s \<Longrightarrow> controls_ok s'"
  by (simp add: controls_def controls_ok_def)

lemma controls_ok_init_spectrometer:
  "controls_ok s \<Longrightarrow> connect_button s \<Longrightarrow> controls_ok (init_spectrometer avail s)"
  by (auto simp: controls_ok_def init_spectrometer_def integration_time_micros_def Let_def
      split: option.splits)

lemma fire_controls_ok:
  assumes "controls_ok s"
  shows "controls_ok (left_by (fire e s))"
proof (cases e)
  case Tick
  have some: "intensities s \<noteq> None" using assms by (simp add: controls_ok_def)
  have "controls (left_by (update s)) = controls s"
    and "intensities (left_by (update s)) \<noteq> None"
    using left_by_update [of s] some by simp_all
  then have "controls_ok (left_by (update s))" using assms by (rule controls_ok_cong)
  then show ?thesis using Tick by simp
next
  case (ClickConnect avail)
  then show ?thesis
    using assms controls_ok_init_spectrometer [of s avail] by (simp add: left_by_def)
next
  case (CommitIntegrationTime str)
  then show ?thesis using assms
    by (auto simp: controls_ok_def update_integration_time_def Let_def left_by_def
        split: option.splits sum.splits)
next
  case (CommitScansToAverage str)
  then show ?thesis using assms
    by (auto simp: controls_ok_def update_scans_to_average_def left_by_def
        split: option.splits)
next
  case ClickStartCapture
  then show ?thesis using assms
    by (auto simp: controls_ok_def start_capture_def left_by_def)
next
  case ClickStopCapture
  then show ?thesis using assms
    by (auto simp: controls_ok_def stop_capture_def left_by_def)
next
  case (ClickExport filename opened)
  have "controls (left_by (fire e s)) = controls s"
    and "intensities (left_by (fire e s)) \<noteq> None"
    using left_by_export [of filename opened s] assms ClickExport
    by (simp_all add: controls_ok_def)
  then show ?thesis using assms by (rule controls_ok_cong)
qed

lemma run_controls_ok:
  "controls_ok s \<Longrightarrow> controls_ok (run es s)"
  by (induction es arbitrary: s) (simp_all add: fire_controls_ok)

lemma controls_ok_init: "controls_ok usb2000_init"
  by (simp add: controls_ok_def usb2000_init_def)

lemma start_capture_click:
  assumes "controls_ok s"
  shows "(capture_state_of s \<noteq> Connected \<longrightarrow> fire ClickStartCapture s = Inr s) \<and>
     (capture_state_of s = Connected \<longrightarrow>
        fire ClickStartCapture s = Inr (start_capture s) \<and>
        capture_state_of (start_capture s) = Capturing)"
  using assms by (auto simp: controls_ok_def capture_state_of_def start_capture_def)

lemma csv_writerow_header:
  "csv_writerow [''Wavelength'', ''Intensity''] = ''Wavelength,Intensity'' @ [CHR 0x0D, CHR 0x0A]"
  by (simp add: csv_writerow_def csv_field_def csv_special_def)

lemma export_bench_session:
  "export_data ''out.csv'' True (bench_session outs) =
     \<lparr>after = bench_session outs,
      written = Some (''out.csv'', ''Wavelength,Intensity'' @ [CHR 0x0D, CHR 0x0A]),
      raised = Some IndexError\<rparr>"
proof -
  have upt: "[0..<3] = 0 # [1..<3]" by (simp add: upt_rec)
  show ?thesis
    by (simp add: export_data_def csv_writerow_header bench_session_fields upt)
qed

lemma run_connect:
  "run [ClickConnect (Some (bench_device outs))] usb2000_init = bench_session outs"
  by (simp add: bench_session_buttons bench_session_def left_by_def)

lemma run_connect_export:
  "run [ClickConnect (Some (bench_device outs)), ClickExport ''out.csv'' True] usb2000_init =
     bench_session outs"
  by (simp add: bench_session_buttons bench_session_def [symmetric] left_by_def
      export_bench_session)

lemma run_connect_export_start:
  "run [ClickConnect (Some (bench_device outs)), ClickExport ''out.csv'' True, ClickStartCapture]
     usb2000_init = start_capture (bench_session outs)"
  by (simp add: bench_session_buttons bench_session_def [symmetric] left_by_def
      export_bench_session)

text \<open>
  Claim C4. The start button's \<open>clicked\<close> signal is the only caller of
  \<open>start_capture\<close>. After every sequence of operator actions and ticks from the initial
  state, slots that raise included, the click is rejected in every state other than
  connected: in the idle and in the capturing state the button is disabled,
  \<open>start_capture\<close> does not run and the state is unchanged. In the connected state the
  click is accepted and leads to capturing.
\<close>

theorem start_capture_click_gated:
  "(capture_state_of (run es usb2000_init) \<noteq> Connected \<longrightarrow>
      fire ClickStartCapture (run es usb2000_init) = Inr (run es usb2000_init)) \<and>
   (capture_state_of (run es usb2000_init) = Connected \<longrightarrow>
      fire ClickStartCapture (run es usb2000_init) = Inr (start_capture (run es usb2000_init)) \<and>
      capture_state_of (start_capture (run es usb2000_init)) = Capturing)"
  using run_controls_ok [OF controls_ok_init] by (rule start_capture_click)

theorem start_capture_click_gated_witness:
  "capture_state_of (run [] usb2000_init) = Idle \<and>
   fire ClickStartCapture (run [] usb2000_init) = Inr (run [] usb2000_init) \<and>
   fire (ClickExport ''out.csv'' True) (bench_session []) = Inl (IndexError, bench_session []) \<and>
   run [ClickConnect (Some (bench_device [])), ClickExport ''out.csv'' True] usb2000_init =
     bench_session [] \<and>
   capture_state_of (bench_session []) = Connected \<and>
   fire ClickStartCapture (bench_session []) = Inr (start_capture (bench_session [])) \<and>
   capture_state_of (start_capture (bench_session [])) = Capturing \<and>
   run [ClickConnect (Some (bench_device [])), ClickExport ''out.csv'' True, ClickStartCapture]
     usb2000_init = start_capture (bench_session []) \<and>
   fire ClickStartCapture (start_capture (bench_session [])) =
     Inr (start_capture (bench_session []))"
proof -
  have c0: "capture_state_of (run [] usb2000_init) = Idle"
    by (simp add: capture_state_of_def usb2000_init_def)
  have c1: "capture_state_of (bench_session []) = Connected"
    by (simp add: capture_state_of_def bench_session_fields)
  have c2: "capture_state_of (start_capture (bench_session [])) = Capturing"
    by (simp add: capture_state_of_def start_capture_def bench_session_fields)
  have x: "fire (ClickExport ''out.csv'' True) (bench_session []) =
      Inl (IndexError, bench_session [])"
    by (simp add: export_bench_session)
  note idle = start_capture_click_gated [of "[]"]
  note connected = start_capture_click_gated
    [of "[ClickConnect (Some (bench_device [])), ClickExport ''out.csv'' True]"]
  note capturing = start_capture_click_gated
    [of "[ClickConnect (Some (bench_device [])), ClickExport ''out.csv'' True,
          ClickStartCapture]"]
  have i: "fire ClickStartCapture (run [] usb2000_init) = Inr (run [] usb2000_init)"
    using idle c0 by simp
  have k: "fire ClickStartCapture (bench_session []) = Inr (start_capture (bench_session []))"
    using connected c1 unfolding run_connect_export by simp
  have l: "fire ClickStartCapture (start_capture (bench_session [])) =
      Inr (start_capture (bench_session []))"
    using capturing c2 unfolding run_connect_export_start by simp
  show ?thesis
    using c0 c1 c2 x i k l
    unfolding run_connect_export run_connect_export_start by simp
qed

section \<open>The settings: averaging depth and integration time\<close>

lemma positive_settings_controls:
  "controls s' = controls s \<Longrightarrow> positive_settings s' = positive_settings s"
  by (simp add: controls_def positive_settings_def)

lemma settings_init_spectrometer:
  "scans_to_average (init_spectrometer avail s) = scans_to_average s"
  "integration_time_us (init_spectrometer avail s) = integration_time_us s"
  by (simp_all add: init_spectrometer_def integration_time_micros_def Let_def
      split: option.splits)

lemma settings_update_scans_to_average:
  "scans_to_average (update_scans_to_average str s) =
     (case py_int str of None \<Rightarrow> scans_to_average s | Some v \<Rightarrow> v)"
  "integration_time_us (update_scans_to_average str s) = integration_time_us s"
  by (simp_all add: update_scans_to_average_def split: option.splits)

lemma settings_update_integration_time:
  "integration_time_us (update_integration_time str s) =
     (case py_int str of None \<Rightarrow> integration_time_us s | Some v \<Rightarrow> v)"
  "scans_to_average (update_integration_time str s) = scans_to_average s"
  by (simp_all add: update_integration_time_def integration_time_micros_def Let_def
      split: option.splits)

lemma fire_positive_settings:
  assumes "controls_ok s" and "positive_settings s" and "positive_commit e"
  shows "positive_settings (left_by (fire e s))"
proof (cases e)
  case Tick
  have "controls (left_by (update s)) = controls s" using left_by_update [of s] by simp
  then have "positive_settings (left_by (update s)) = positive_settings s"
    by (rule positive_settings_controls)
  then show ?thesis using assms(2) Tick by simp
next
  case (ClickConnect avail)
  then show ?thesis using assms(2)
    by (simp add: positive_settings_def settings_init_spectrometer left_by_def)
next
  case (CommitIntegrationTime str)
  have "case py_int str of None \<Rightarrow> True | Some v \<Rightarrow> 0 < v"
    using assms(3) CommitIntegrationTime by simp
  then show ?thesis using assms(2) CommitIntegrationTime
    by (simp add: positive_settings_def settings_update_integration_time left_by_def
        split: option.splits)
next
  case (CommitScansToAverage str)
  have "case py_int str of None \<Rightarrow> True | Some v \<Rightarrow> 0 < v"
    using assms(3) CommitScansToAverage by simp
  then show ?thesis using assms(2) CommitScansToAverage
    by (simp add: positive_settings_def settings_update_scans_to_average left_by_def
        split: option.splits)
next
  case ClickStartCapture
  then show ?thesis using assms(2)
    by (simp add: positive_settings_def start_capture_def left_by_def)
next
  case ClickStopCapture
  then show ?thesis using assms(2)
    by (simp add: positive_settings_def stop_capture_def left_by_def)
next
  case (ClickExport filename opened)
  have "controls (left_by (fire e s)) = controls s"
    using left_by_export [of filename opened s] ClickExport by simp
  then have "positive_settings (left_by (fire e s)) = positive_settings s"
    by (rule positive_settings_controls)
  then show ?thesis using assms(2) by simp
qed

lemma run_positive_settings:
  "controls_ok s \<Longrightarrow> positive_settings s \<Longrightarrow> list_all positive_commit es \<Longrightarrow>
   positive_settings (run es s)"
proof (induction es arbitrary: s)
  case Nil
  then show ?case by simp
next
  case (Cons e es)
  have e: "positive_commit e" and es: "list_all positive_commit es"
    using Cons.prems(3) by simp_all
  have "controls_ok (left_by (fire e s))" using Cons.prems(1) by (rule fire_controls_ok)
  moreover have "positive_settings (left_by (fire e s))"
    using Cons.prems(1,2) e by (rule fire_positive_settings)
  ultimately have "positive_settings (run es (left_by (fire e s)))" using es by (rule Cons.IH)
  then show ?case by simp
qed

text \<open>
  Claim C9, as amended. From the defaults (depth 4, integration time 20000), after every
  sequence of operator actions and ticks, slots that raise included, in which each
  committed text either is refused by \<open>int()\<close> or denotes a positive integer, the
  averaging depth and the integration time are positive integers.
\<close>

theorem settings_stay_positive:
  assumes "list_all positive_commit es"
  shows "0 < scans_to_average (run es usb2000_init) \<and>
     0 < integration_time_us (run es usb2000_init)"
proof -
  have "positive_settings usb2000_init"
    by (simp add: positive_settings_def usb2000_init_def)
  from run_positive_settings [OF controls_ok_init this assms]
  show ?thesis by (simp add: positive_settings_def)
qed

theorem settings_stay_positive_witness:
  "list_all positive_commit
     [CommitScansToAverage ''8'', ClickConnect (Some (bench_device [])),
      ClickExport ''out.csv'' True, CommitIntegrationTime ''abc'',
      CommitIntegrationTime ''50000''] \<and>
   fire (ClickExport ''out.csv'' True) (bench_session []) = Inl (IndexError, bench_session []) \<and>
   0 < scans_to_average (run
     [CommitScansToAverage ''8'', ClickConnect (Some (bench_device [])),
      ClickExport ''out.csv'' True, CommitIntegrationTime ''abc'',
      CommitIntegrationTime ''50000''] usb2000_init) \<and>
   0 < integration_time_us (run
     [CommitScansToAverage ''8'', ClickConnect (Some (bench_device [])),
      ClickExport ''out.csv'' True, CommitIntegrationTime ''abc'',
      CommitIntegrationTime ''50000''] usb2000_init)"
proof -
  let ?es = "[CommitScansToAverage ''8'', ClickConnect (Some (bench_device [])),
      ClickExport ''out.csv'' True, CommitIntegrationTime ''abc'',
      CommitIntegrationTime ''50000'']"
  have h: "list_all positive_commit ?es"
    by (simp add: py_int_8 py_int_abc py_int_50000)
  have x: "fire (ClickExport ''out.csv'' True) (bench_session []) =
      Inl (IndexError, bench_session [])"
    by (simp add: export_bench_session)
  show ?thesis using h x settings_stay_positive [OF h] by simp
qed

text \<open>
  The claim as stated fails: the commits store whatever integer the text denotes. From
  the defaults, committing \<open>"0"\<close> as scans to average stores depth 0, and committing
  \<open>"-5"\<close> as integration time stores -5.
\<close>

theorem commits_store_nonpositive:
  "py_int ''0'' = Some 0 \<and> py_int ''-5'' = Some (- 5) \<and>
   scans_to_average (update_scans_to_average ''0'' usb2000_init) = 0 \<and>
   integration_time_us (update_integration_time ''-5'' usb2000_init) = - 5"
  by (simp add: update_scans_to_average_def update_integration_time_def usb2000_init_def
      py_int_def py_strip_def py_isspace_def py_digits_def digit_of_def)

section \<open>The export\<close>

text \<open>
  Claim C7. The check for missing data compares \<open>self.intensities\<close> with \<open>None\<close>, which
  it never is. With a file name chosen and the file opened, the export of the initial
  object (nothing acquired) writes a file holding the header row alone and reports
  success; the export of a connected session that has not captured writes the header
  row and is then left by \<open>IndexError\<close>. In neither case is "no data" reported.
\<close>

theorem export_data_no_data_check:
  "export_data ''out.csv'' True usb2000_init =
     \<lparr>after = usb2000_init\<lparr>status_label := ''INFO: Data exported to out.csv''\<rparr>,
      written = Some (''out.csv'', ''Wavelength,Intensity'' @ [CHR 0x0D, CHR 0x0A]),
      raised = None\<rparr> \<and>
   export_data ''out.csv'' True (bench_session []) =
     \<lparr>after = bench_session [],
      written = Some (''out.csv'', ''Wavelength,Intensity'' @ [CHR 0x0D, CHR 0x0A]),
      raised = Some IndexError\<rparr>"
proof -
  have "export_data ''out.csv'' True usb2000_init =
     \<lparr>after = usb2000_init\<lparr>status_label := ''INFO: Data exported to out.csv''\<rparr>,
      written = Some (''out.csv'', ''Wavelength,Intensity'' @ [CHR 0x0D, CHR 0x0A]),
      raised = None\<rparr>"
    by (simp add: export_data_def csv_writerow_header) (simp add: usb2000_init_def)
  then show ?thesis by (simp add: export_bench_session)
qed

















end
